theory Spec2Isabelle
  imports Main "HOL-Library.Sublist" "HOL-Library.Word"
begin

section \<open>Python strings\<close>

text \<open>
  A Python \<^verbatim>\<open>str\<close> is a sequence of Unicode code points; a code point is modelled as a
  natural number. String literals of the source are written with \<open>ascii\<close>.
\<close>

type_synonym ustr = "nat list"

definition ascii :: "string \<Rightarrow> ustr" where
  "ascii s = map of_char s"

text \<open>
  \<^verbatim>\<open>old in s\<close>: \<open>old\<close> occurs in \<open>s\<close> as a contiguous substring.
\<close>

fun contains :: "'a list \<Rightarrow> 'a list \<Rightarrow> bool" where
  "contains old [] = (old = [])"
| "contains old (c # cs) = (prefix old (c # cs) \<or> contains old cs)"

text \<open>
  \<^verbatim>\<open>s.replace(old, new)\<close>: one scan from the left; at each position where \<open>old\<close> starts
  it is replaced by \<open>new\<close> and the scan resumes after the occurrence. For the empty \<open>old\<close>
  Python puts \<open>new\<close> before every character and at the end.
\<close>

function replace_nonempty :: "'a list \<Rightarrow> 'a list \<Rightarrow> 'a list \<Rightarrow> 'a list" where
  "replace_nonempty old new [] = []"
| "replace_nonempty old new (c # cs) =
     (if old \<noteq> [] \<and> prefix old (c # cs)
      then new @ replace_nonempty old new (drop (length old) (c # cs))
      else c # replace_nonempty old new cs)"
  by pat_completeness auto
termination
  by (relation "measure (\<lambda>(old, new, s). length s)") auto

definition str_replace :: "'a list \<Rightarrow> 'a list \<Rightarrow> 'a list \<Rightarrow> 'a list" where
  "str_replace old new s =
     (if old = [] then new @ concat (map (\<lambda>c. c # new) s) else replace_nonempty old new s)"

text \<open>
  \<^verbatim>\<open>str.isspace\<close> on one code point (the Unicode white space and the separators
  U+001C..U+001F), and \<^verbatim>\<open>s.strip()\<close>.
\<close>

definition is_space :: "nat \<Rightarrow> bool" where
  "is_space c =
     ((9 \<le> c \<and> c \<le> 13) \<or> (28 \<le> c \<and> c \<le> 32) \<or> c = 133 \<or> c = 160 \<or> c = 5760
      \<or> (8192 \<le> c \<and> c \<le> 8202) \<or> c = 8232 \<or> c = 8233 \<or> c = 8239 \<or> c = 8287
      \<or> c = 12288)"

definition py_strip :: "ustr \<Rightarrow> ustr" where
  "py_strip s = rev (dropWhile is_space (rev (dropWhile is_space s)))"

text \<open>
  \<^verbatim>\<open>s.lower()\<close>, code point by code point. The table is Unicode's for Basic Latin and
  the Latin-1 Supplement, and for the two code points beyond them whose lowercase form
  holds a Basic Latin letter: U+0130 (capital I with dot above, lowercase \<open>i\<close> followed by
  U+0307) and U+212A (the Kelvin sign, lowercase \<open>k\<close>). Python lowercases the capitals of
  further scripts as well; none of them becomes a Basic Latin letter, and the model
  leaves them as they are.
\<close>

definition lower_cp :: "nat \<Rightarrow> nat list" where
  "lower_cp c =
     (if 65 \<le> c \<and> c \<le> 90 then [c + 32]
      else if 192 \<le> c \<and> c \<le> 222 \<and> c \<noteq> 215 then [c + 32]
      else if c = 304 then [105, 775]
      else if c = 8490 then [107]
      else [c])"

definition py_lower :: "ustr \<Rightarrow> ustr" where
  "py_lower s = concat (map lower_cp s)"

text \<open>
  The character class \<^verbatim>\<open>[a-zA-Z0-9_-]\<close>, and
  \<^verbatim>\<open>re.sub(r'[^a-zA-Z0-9_-]', '-', s)\<close>: every code point outside the class is one match
  and becomes \<open>-\<close> (code point 45).
\<close>

definition in_class :: "nat \<Rightarrow> bool" where
  "in_class c =
     ((97 \<le> c \<and> c \<le> 122) \<or> (65 \<le> c \<and> c \<le> 90) \<or> (48 \<le> c \<and> c \<le> 57) \<or> c = 95 \<or> c = 45)"

fun re_sub_dash :: "ustr \<Rightarrow> ustr" where
  "re_sub_dash [] = []"
| "re_sub_dash (c # cs) = (if in_class c then c else 45) # re_sub_dash cs"

text \<open>\<^verbatim>\<open>x or default\<close> on strings: the empty string is false.\<close>

definition or_default :: "ustr \<Rightarrow> ustr \<Rightarrow> ustr" where
  "or_default x d = (if x = [] then d else x)"

text \<open>
  A string can be encoded as UTF-8 when it holds no surrogate code point (U+D800 to
  U+DFFF). \<^verbatim>\<open>input()\<close> returns such code points for undecodable bytes under the
  \<^verbatim>\<open>surrogateescape\<close> error handler.
\<close>

definition utf8_encodable :: "ustr \<Rightarrow> bool" where
  "utf8_encodable s = list_all (\<lambda>c. \<not> (55296 \<le> c \<and> c \<le> 57343)) s"

text \<open>\<^verbatim>\<open>str(n)\<close> for a non-negative integer: its decimal digits.\<close>

fun str_nat :: "nat \<Rightarrow> ustr" where
  "str_nat n = (if n < 10 then [48 + n] else str_nat (n div 10) @ [48 + n mod 10])"

declare str_nat.simps [simp del]

section \<open>The example types and the validation function\<close>

text \<open>
  \<^verbatim>\<open>src/example/types.py\<close>: the three Pydantic models as records, with the field
  constraints as predicates (construction raises \<^verbatim>\<open>ValidationError\<close> where they fail).
\<close>

type_synonym bytes = "8 word list"

record Address =
  address_value :: bytes

record Transaction =
  nonce :: int
  gas_price :: int
  tx_gas_limit :: int
  to :: "Address option"
  tx_value :: int
  tx_data :: bytes

record Block =
  number :: int
  parent_hash :: bytes
  transactions :: "Transaction list"
  gas_used :: int
  gas_limit :: int

definition valid_Address :: "Address \<Rightarrow> bool" where
  "valid_Address a = (length (address_value a) = 20)"

definition valid_Transaction :: "Transaction \<Rightarrow> bool" where
  "valid_Transaction t =
     (0 \<le> nonce t \<and> 0 \<le> gas_price t \<and> 0 \<le> tx_gas_limit t \<and> 0 \<le> tx_value t
      \<and> (case to t of None \<Rightarrow> True | Some a \<Rightarrow> valid_Address a))"

definition valid_Block :: "Block \<Rightarrow> bool" where
  "valid_Block b =
     (0 \<le> number b \<and> length (parent_hash b) = 32 \<and> list_all valid_Transaction (transactions b)
      \<and> 0 \<le> gas_used b \<and> 0 \<le> gas_limit b)"

text \<open>\<^verbatim>\<open>src/example/validation.py\<close>.\<close>

definition validate_block_gas :: "Block \<Rightarrow> bool" where
  "validate_block_gas block = (gas_used block \<le> gas_limit block)"

section \<open>The setup script: configuration\<close>

record config =
  project_name :: ustr
  package_name :: ustr
  github_org :: ustr
  author_name :: ustr
  author_email :: ustr
  year :: ustr

text \<open>
  Line 24 of \<^verbatim>\<open>scripts/setup.py\<close>: the default of the package name, computed from the
  resolved project name (lowercased first, then substituted).
\<close>

definition default_package_name :: "ustr \<Rightarrow> ustr" where
  "default_package_name pn = re_sub_dash (py_lower pn)"

text \<open>
  The same default in the words of the specification: every character outside the class
  becomes \<open>-\<close>, and the result is lowercased.
\<close>

definition spec_default_package_name :: "ustr \<Rightarrow> ustr" where
  "spec_default_package_name pn = py_lower (map (\<lambda>c. if in_class c then c else 45) pn)"

section \<open>The setup script: the world it runs in\<close>

text \<open>
  The script reads lines from standard input, prints, and examines, reads and writes
  files below the current directory. All of it is one explicit state.

  \<^item> \<open>files w p = Some n\<close>: there is a file (or a directory) at \<open>p\<close>. Its \<open>data\<close> is the
    text that \<^verbatim>\<open>read_text\<close> returns (\<open>None\<close>: reading or decoding raises); it is
    \<open>writable\<close> when it can be opened for writing.
  \<^item> \<open>files w p = None\<close>: nothing can be seen at \<open>p\<close>. Either nothing is there, or \<open>p\<close>
    lies in a directory that the process may not search (\<open>p \<in> denied w\<close>): examining
    such a path raises \<^verbatim>\<open>PermissionError\<close>.

  The banner, the prompts and the summaries that the script prints are left out of
  \<open>stdout\<close>; the messages that report an outcome are kept.
\<close>

datatype exn = KeyboardInterrupt | EOFError | OSError | UnicodeEncodeError

datatype event = Line ustr | Interrupt

record node =
  data :: "ustr option"
  writable :: bool

datatype message =
    NotFound
  | AlreadyConfigured
  | Updated string
  | ErrorUpdating string
  | FileNotFound string
  | SetupComplete
  | SetupCancelled
  | ErrorOccurred

record world =
  files :: "string \<Rightarrow> node option"
  denied :: "string set"
  stdin :: "event list"
  stdout :: "message list"
  cwd_name :: ustr
  current_year :: nat

type_synonym 'a io = "world \<Rightarrow> (exn + 'a) \<times> world"

text \<open>Sequencing: an exception of the first action skips the second.\<close>

definition io_bind :: "'a io \<Rightarrow> ('a \<Rightarrow> 'b io) \<Rightarrow> 'b io" where
  "io_bind m f w = (case m w of (Inl e, w') \<Rightarrow> (Inl e, w') | (Inr x, w') \<Rightarrow> f x w')"

text \<open>\<^verbatim>\<open>except Exception\<close> catches everything of the model but the keyboard interrupt.\<close>

definition is_Exception :: "exn \<Rightarrow> bool" where
  "is_Exception e = (e \<noteq> KeyboardInterrupt)"

definition print :: "message \<Rightarrow> world \<Rightarrow> world" where
  "print m w = w\<lparr>stdout := stdout w @ [m]\<rparr>"

text \<open>
  \<^verbatim>\<open>input(...)\<close>: the next line of standard input without its newline;
  \<^verbatim>\<open>EOFError\<close> at the end of input; \<^verbatim>\<open>KeyboardInterrupt\<close> when the user interrupts.
\<close>

definition py_input :: "ustr io" where
  "py_input w =
     (case stdin w of
        [] \<Rightarrow> (Inl EOFError, w)
      | Line s # es \<Rightarrow> (Inr s, w\<lparr>stdin := es\<rparr>)
      | Interrupt # es \<Rightarrow> (Inl KeyboardInterrupt, w\<lparr>stdin := es\<rparr>))"

text \<open>
  \<^verbatim>\<open>Path.exists()\<close>: true for what is there, false for what is not, and the
  \<^verbatim>\<open>PermissionError\<close> of the underlying \<^verbatim>\<open>stat\<close> raised again for a path that may not
  be examined.
\<close>

definition path_exists :: "string \<Rightarrow> bool io" where
  "path_exists p w =
     (case files w p of
        Some n \<Rightarrow> (Inr True, w)
      | None \<Rightarrow> if p \<in> denied w then (Inl OSError, w) else (Inr False, w))"

definition read_text :: "string \<Rightarrow> ustr io" where
  "read_text p w =
     (case files w p of
        None \<Rightarrow> (Inl OSError, w)
      | Some n \<Rightarrow> (case data n of None \<Rightarrow> (Inl OSError, w) | Some c \<Rightarrow> (Inr c, w)))"

text \<open>
  \<^verbatim>\<open>Path.write_text(c, encoding='utf-8')\<close>: the file is opened for writing, which
  raises for a file that is not writable and otherwise empties it (and creates it where
  nothing was); then \<open>c\<close> is encoded and written. A text that cannot be encoded raises
  \<^verbatim>\<open>UnicodeEncodeError\<close> at that point and the file stays empty.
\<close>

definition write_text :: "string \<Rightarrow> ustr \<Rightarrow> unit io" where
  "write_text p c w =
     (case files w p of
        None \<Rightarrow>
          if p \<in> denied w then (Inl OSError, w)
          else if utf8_encodable c
          then (Inr (), w\<lparr>files := (files w)(p \<mapsto> \<lparr>data = Some c, writable = True\<rparr>)\<rparr>)
          else (Inl UnicodeEncodeError,
                w\<lparr>files := (files w)(p \<mapsto> \<lparr>data = Some [], writable = True\<rparr>)\<rparr>)
      | Some n \<Rightarrow>
          if \<not> writable n then (Inl OSError, w)
          else if utf8_encodable c
          then (Inr (), w\<lparr>files := (files w)(p \<mapsto> n\<lparr>data := Some c\<rparr>)\<rparr>)
          else (Inl UnicodeEncodeError, w\<lparr>files := (files w)(p \<mapsto> n\<lparr>data := Some []\<rparr>)\<rparr>))"

section \<open>The setup script: the functions\<close>

text \<open>\<^verbatim>\<open>get_user_input\<close> (lines 11 to 51).\<close>

definition get_user_input :: "config io" where
  "get_user_input w =
     (let default_project_name = cwd_name w in
      io_bind py_input (\<lambda>r1.
        let pn = or_default (py_strip r1) default_project_name;
            default_pkg = default_package_name pn
        in
        io_bind py_input (\<lambda>r2.
        io_bind py_input (\<lambda>r3.
        io_bind py_input (\<lambda>r4.
        io_bind py_input (\<lambda>r5.
        io_bind py_input (\<lambda>r6 w'.
          (Inr \<lparr>project_name = pn,
                package_name = or_default (py_strip r2) default_pkg,
                github_org = or_default (py_strip r3) (ascii ''ethereum''),
                author_name = or_default (py_strip r4) (ascii ''Ethereum Foundation''),
                author_email = or_default (py_strip r5) (ascii ''security@ethereum.org''),
                year = or_default (py_strip r6) (str_nat (current_year w'))\<rparr>, w'))))))) w)"

text \<open>
  The loop of \<^verbatim>\<open>replace_in_file\<close> (lines 59 and 60) over the items of the dictionary,
  in insertion order.
\<close>

fun apply_replacements :: "(ustr \<times> ustr) list \<Rightarrow> ustr \<Rightarrow> ustr" where
  "apply_replacements [] content = content"
| "apply_replacements ((old, new) # rest) content =
     apply_replacements rest (str_replace old new content)"

text \<open>
  \<^verbatim>\<open>replace_in_file\<close> (lines 54 to 65): an exception of the read or of the write that
  \<^verbatim>\<open>except Exception\<close> catches is reported and the function returns normally.
\<close>

definition replace_in_file :: "string \<Rightarrow> (ustr \<times> ustr) list \<Rightarrow> unit io" where
  "replace_in_file file_path repl w =
     (case io_bind (read_text file_path)
             (\<lambda>content. write_text file_path (apply_replacements repl content)) w of
        (Inr u, w') \<Rightarrow> (Inr (), print (Updated file_path) w')
      | (Inl e, w') \<Rightarrow>
          if is_Exception e then (Inr (), print (ErrorUpdating file_path) w')
          else (Inl e, w'))"

text \<open>The dictionary \<^verbatim>\<open>replacements\<close> (lines 71 to 89), as its items in order.\<close>

definition repository_url :: "config \<Rightarrow> ustr" where
  "repository_url cfg = ascii ''https://github.com/'' @ github_org cfg @ ascii ''/'' @ package_name cfg"

definition replacements :: "config \<Rightarrow> (ustr \<times> ustr) list" where
  "replacements cfg =
     [(ascii ''{PROJECT_NAME}'', project_name cfg),
      (ascii ''{PACKAGE_NAME}'', package_name cfg),
      (ascii ''{GITHUB_ORG}'', github_org cfg),
      (ascii ''{AUTHOR_NAME}'', author_name cfg),
      (ascii ''{AUTHOR_EMAIL}'', author_email cfg),
      (ascii ''{YEAR}'', year cfg),
      (ascii ''ethereum-protocol-specs'', package_name cfg),
      (ascii ''ethereum-specs'', package_name cfg),
      (ascii ''Your Name'', author_name cfg),
      (ascii ''your.email@example.com'', author_email cfg),
      (ascii ''Ethereum Foundation'', author_name cfg),
      (ascii ''2025'', year cfg),
      (ascii ''2024'', year cfg),
      (ascii ''ethereum/ethereum-protocol-specs'', github_org cfg @ ascii ''/'' @ package_name cfg),
      (ascii ''https://github.com/ethereum/...'', repository_url cfg)]"

definition files_to_update :: "string list" where
  "files_to_update =
     [''pyproject.toml'', ''mkdocs.yml'', ''README.md'', ''LICENSE'', ''docs/index.md'',
      ''.github/ISSUE_TEMPLATE/bug_report.md'', ''.github/ISSUE_TEMPLATE/feature_request.md'']"

definition repository_url_files :: "string list" where
  "repository_url_files = [''README.md'', ''docs/index.md'']"

text \<open>
  The first loop of \<^verbatim>\<open>setup_project\<close> (lines 102 to 109). The call of
  \<^verbatim>\<open>exists()\<close> is outside the \<^verbatim>\<open>try\<close> of \<^verbatim>\<open>replace_in_file\<close>: an exception of it
  leaves the loop.
\<close>

fun update_files :: "string list \<Rightarrow> (ustr \<times> ustr) list \<Rightarrow> unit io" where
  "update_files [] repl w = (Inr (), w)"
| "update_files (file_path # rest) repl w =
     (case path_exists file_path w of
        (Inl e, w1) \<Rightarrow> (Inl e, w1)
      | (Inr found, w1) \<Rightarrow>
          if found
          then io_bind (replace_in_file file_path repl) (\<lambda>u. update_files rest repl) w1
          else update_files rest repl (print (FileNotFound file_path) w1))"

text \<open>The second loop of \<^verbatim>\<open>setup_project\<close> (lines 111 to 120); nothing is caught here.\<close>

fun update_repository_url :: "string list \<Rightarrow> config \<Rightarrow> unit io" where
  "update_repository_url [] cfg w = (Inr (), w)"
| "update_repository_url (file_path # rest) cfg w =
     (case path_exists file_path w of
        (Inl e, w1) \<Rightarrow> (Inl e, w1)
      | (Inr found, w1) \<Rightarrow>
          if found
          then io_bind (read_text file_path) (\<lambda>content.
                 io_bind (write_text file_path
                            (str_replace (ascii ''<repository-url>'') (repository_url cfg) content))
                   (\<lambda>u. update_repository_url rest cfg)) w1
          else update_repository_url rest cfg w1)"

definition setup_project :: "config \<Rightarrow> unit io" where
  "setup_project cfg =
     io_bind (update_files files_to_update (replacements cfg)) (\<lambda>u.
     io_bind (update_repository_url repository_url_files cfg) (\<lambda>u w.
       (Inr (), print SetupComplete w)))"

text \<open>
  \<^verbatim>\<open>main\<close> (lines 131 to 166), returning the exit status of the process. The body of
  the \<^verbatim>\<open>try\<close> is \<open>main_try\<close>. The check of line 134 and the read of line 140 are
  outside the \<^verbatim>\<open>try\<close>: an exception there ends the process with a traceback and
  status 1.
\<close>

definition main_try :: "unit io" where
  "main_try =
     io_bind get_user_input (\<lambda>cfg.
     io_bind py_input (\<lambda>r.
       let confirm = py_lower (py_strip r) in
       if confirm \<in> set [ascii '''', ascii ''y'', ascii ''yes'']
       then setup_project cfg
       else (\<lambda>w. (Inr (), print SetupCancelled w))))"

definition main :: "world \<Rightarrow> nat \<times> world" where
  "main w =
     (case path_exists ''pyproject.toml'' w of
        (Inl e, w0) \<Rightarrow> (1, w0)
      | (Inr found, w0) \<Rightarrow>
          if \<not> found then (1, print NotFound w0)
          else
            (case read_text ''pyproject.toml'' w0 of
               (Inl e, w1) \<Rightarrow> (1, w1)
             | (Inr pyproject_content, w1) \<Rightarrow>
                 if \<not> contains (ascii ''{PACKAGE_NAME}'') pyproject_content
                 then (1, print AlreadyConfigured w1)
                 else
                   (case main_try w1 of
                      (Inr u, w2) \<Rightarrow> (0, w2)
                    | (Inl e, w2) \<Rightarrow>
                        if e = KeyboardInterrupt then (0, print SetupCancelled w2)
                        else (1, print ErrorOccurred w2))))"

section \<open>The outcome of one target file\<close>

text \<open>
  The specification reports, for every target file, one of three outcomes: updated,
  missing, failed. The script prints one line for each. The definitions below read the
  outcome, its printed line and the file left behind off the file as it is before the
  pass: a missing file stays missing; an unreadable or unwritable one fails and stays as
  it is; a readable and writable one receives the substituted text, or, where that text
  cannot be encoded, fails and is left empty. A target that may not be examined
  (\<open>unsearchable\<close>) has no outcome: the existence check raises.
\<close>

datatype outcome = OutcomeUpdated | OutcomeMissing | OutcomeFailed

definition unsearchable :: "world \<Rightarrow> string \<Rightarrow> bool" where
  "unsearchable w p = (files w p = None \<and> p \<in> denied w)"

definition file_outcome :: "(ustr \<times> ustr) list \<Rightarrow> node option \<Rightarrow> outcome" where
  "file_outcome repl x =
     (case x of
        None \<Rightarrow> OutcomeMissing
      | Some n \<Rightarrow>
          (case data n of
             None \<Rightarrow> OutcomeFailed
           | Some c \<Rightarrow>
               if writable n \<and> utf8_encodable (apply_replacements repl c) then OutcomeUpdated
               else OutcomeFailed))"

definition outcome_message :: "string \<Rightarrow> outcome \<Rightarrow> message" where
  "outcome_message p oc =
     (case oc of
        OutcomeUpdated \<Rightarrow> Updated p
      | OutcomeMissing \<Rightarrow> FileNotFound p
      | OutcomeFailed \<Rightarrow> ErrorUpdating p)"

definition file_after :: "(ustr \<times> ustr) list \<Rightarrow> node option \<Rightarrow> node option" where
  "file_after repl x =
     (case x of
        None \<Rightarrow> None
      | Some n \<Rightarrow>
          (case data n of
             None \<Rightarrow> Some n
           | Some c \<Rightarrow>
               if \<not> writable n then Some n
               else if utf8_encodable (apply_replacements repl c)
               then Some (n\<lparr>data := Some (apply_replacements repl c)\<rparr>)
               else Some (n\<lparr>data := Some []\<rparr>)))"

text \<open>
  The second pass, in the words of the specification: a file can be rewritten when it is
  there, can be read and written, and its text with the URL put in can be encoded;
  rewriting replaces every occurrence of the sentinel by the URL made of the organisation
  and the package name.
\<close>

definition url_rewrite :: "config \<Rightarrow> ustr \<Rightarrow> ustr" where
  "url_rewrite cfg content =
     str_replace (ascii ''<repository-url>'')
       (ascii ''https://github.com/'' @ github_org cfg @ ascii ''/'' @ package_name cfg) content"

definition rewritable :: "config \<Rightarrow> world \<Rightarrow> string \<Rightarrow> bool" where
  "rewritable cfg w p =
     (case files w p of
        None \<Rightarrow> False
      | Some n \<Rightarrow>
          (case data n of
             None \<Rightarrow> False
           | Some c \<Rightarrow> writable n \<and> utf8_encodable (url_rewrite cfg c)))"

definition absent :: "world \<Rightarrow> string \<Rightarrow> bool" where
  "absent w p = (files w p = None \<and> p \<notin> denied w)"

definition url_rewritten :: "config \<Rightarrow> node option \<Rightarrow> node option" where
  "url_rewritten cfg x =
     (case x of
        None \<Rightarrow> None
      | Some n \<Rightarrow> Some (n\<lparr>data := map_option (url_rewrite cfg) (data n)\<rparr>))"

text \<open>
  The two placeholder tokens of the Foo/bar scenario of the specification, with the text of
  each in a template and the value a configuration gives it.
\<close>

datatype token = ProjectToken | PackageToken

fun token_text :: "token \<Rightarrow> ustr" where
  "token_text ProjectToken = ascii ''{PROJECT_NAME}''"
| "token_text PackageToken = ascii ''{PACKAGE_NAME}''"

fun token_value :: "config \<Rightarrow> token \<Rightarrow> ustr" where
  "token_value cfg ProjectToken = project_name cfg"
| "token_value cfg PackageToken = package_name cfg"

section \<open>Concrete worlds\<close>

text \<open>
  A fresh template (an unreadable \<^verbatim>\<open>mkdocs.yml\<close>, a read-only \<^verbatim>\<open>LICENSE\<close>, no
  \<^verbatim>\<open>docs/index.md\<close>); the same template with a \<^verbatim>\<open>docs/index.md\<close>; with a
  \<^verbatim>\<open>docs\<close> directory that may not be searched and an issue template behind it in the
  list; with a read-only \<^verbatim>\<open>README.md\<close>; a configuration whose package name is the
  text of a later search token, and one whose author name holds the surrogate U+DCE9; and
  a repository that has been configured already.
\<close>

definition template_world :: world where
  "template_world =
     \<lparr>files =
        [''pyproject.toml'' \<mapsto> \<lparr>data = Some (ascii ''name = {PACKAGE_NAME}''), writable = True\<rparr>,
         ''mkdocs.yml'' \<mapsto> \<lparr>data = None, writable = True\<rparr>,
         ''README.md'' \<mapsto> \<lparr>data = Some (ascii ''{PACKAGE_NAME} at <repository-url>''), writable = True\<rparr>,
         ''LICENSE'' \<mapsto> \<lparr>data = Some (ascii ''Copyright 2024 Your Name''), writable = False\<rparr>],
      denied = {},
      stdin = [], stdout = [], cwd_name = ascii ''My Specs'', current_year = 2025\<rparr>"

definition documented_world :: world where
  "documented_world =
     template_world\<lparr>files := (files template_world)(''docs/index.md'' \<mapsto>
        \<lparr>data = Some (ascii ''See <repository-url> or <repository-url>/issues''),
         writable = True\<rparr>)\<rparr>"

definition unsearchable_docs_world :: world where
  "unsearchable_docs_world =
     template_world\<lparr>files := (files template_world)(''.github/ISSUE_TEMPLATE/bug_report.md'' \<mapsto>
        \<lparr>data = Some (ascii ''Bug in {PROJECT_NAME}''), writable = True\<rparr>),
       denied := {''docs/index.md''}\<rparr>"

definition readonly_readme_world :: world where
  "readonly_readme_world =
     documented_world\<lparr>files := (files documented_world)(''README.md'' \<mapsto>
        \<lparr>data = Some (ascii ''{PACKAGE_NAME} at <repository-url>''), writable = False\<rparr>)\<rparr>"

definition surrogate_config :: config where
  "surrogate_config =
     \<lparr>project_name = ascii ''Foo'', package_name = ascii ''foo'', github_org = ascii ''ethereum'',
      author_name = ascii ''Andr'' @ [56553], author_email = ascii ''security@ethereum.org'',
      year = ascii ''2030''\<rparr>"

definition example_config :: config where
  "example_config =
     \<lparr>project_name = ascii ''Foo'', package_name = ascii ''2024'', github_org = ascii ''ethereum'',
      author_name = ascii ''Ethereum Foundation'', author_email = ascii ''security@ethereum.org'',
      year = ascii ''2030''\<rparr>"

definition configured_world :: world where
  "configured_world =
     \<lparr>files =
        [''pyproject.toml'' \<mapsto> \<lparr>data = Some (ascii ''name = acme-specs''), writable = True\<rparr>,
         ''README.md'' \<mapsto> \<lparr>data = Some (ascii ''acme-specs 2024''), writable = True\<rparr>],
      denied = {},
      stdin = [Line [], Line [], Line [], Line [], Line [], Line [], Line (ascii ''y'')],
      stdout = [], cwd_name = ascii ''acme-specs'', current_year = 2025\<rparr>"

section \<open>Facts about the string functions\<close>

lemma re_sub_dash_map: "re_sub_dash s = map (\<lambda>c. if in_class c then c else 45) s"
  by (induction s) simp_all

lemma lower_cp_ascii:
  assumes "c < 128"
  shows "lower_cp c = [if 65 \<le> c \<and> c \<le> 90 then c + 32 else c]"
  using assms by (simp add: lower_cp_def)

lemma sanitize_orders_agree_cp:
  assumes "c < 128"
  shows "re_sub_dash (lower_cp c) = concat (map lower_cp [if in_class c then c else 45])"
  using assms by (auto simp: lower_cp_def in_class_def)

lemma sanitize_orders_agree:
  assumes "\<forall>c\<in>set pn. c < 128"
  shows "default_package_name pn = spec_default_package_name pn"
  using assms
proof (induction pn)
  case Nil
  show ?case by (simp add: default_package_name_def spec_default_package_name_def py_lower_def)
next
  case (Cons c cs)
  have c: "c < 128" and cs: "\<forall>c\<in>set cs. c < 128" using Cons.prems by simp_all
  have "re_sub_dash (lower_cp c @ py_lower cs)
      = re_sub_dash (lower_cp c) @ re_sub_dash (py_lower cs)"
    by (simp add: re_sub_dash_map)
  with sanitize_orders_agree_cp [OF c] Cons.IH [OF cs] show ?case
    by (simp add: default_package_name_def spec_default_package_name_def py_lower_def)
qed

lemma hd_ascii: "hd (ascii (c # cs)) = of_char c"
  by (simp add: ascii_def)

lemma ascii_nonempty: "ascii (c # cs) \<noteq> []"
  by (simp add: ascii_def)

lemma contains_iff_sublist: "contains old s = sublist old s"
  by (induction s) (auto simp: sublist_Cons_right)

lemma replace_nonempty_no_occurrence:
  "\<not> sublist old s \<Longrightarrow> replace_nonempty old new s = s"
  by (induction s) (auto simp: sublist_Cons_right)

lemma str_replace_no_occurrence:
  "\<not> sublist old s \<Longrightarrow> str_replace old new s = s"
  by (cases "old = []") (simp_all add: str_replace_def replace_nonempty_no_occurrence)

lemma replace_nonempty_at_occurrence:
  assumes "old \<noteq> []"
  shows "replace_nonempty old new (old @ b) = new @ replace_nonempty old new b"
proof -
  obtain c cs where o: "old = c # cs" using assms by (cases old) auto
  show ?thesis unfolding o by simp
qed

lemma replace_nonempty_first:
  assumes "old \<noteq> []" and "\<not> sublist old (a @ butlast old)"
  shows "replace_nonempty old new (a @ old @ b) = a @ new @ replace_nonempty old new b"
  using assms(2)
proof (induction a)
  case Nil
  then show ?case using replace_nonempty_at_occurrence [OF assms(1)] by simp
next
  case (Cons x xs)
  have np: "\<not> prefix old (x # xs @ old @ b)"
  proof
    assume p: "prefix old (x # xs @ old @ b)"
    have "old = butlast old @ [last old]" using assms(1) by simp
    then have "x # xs @ old @ b = ((x # xs) @ butlast old) @ (last old # b)"
      by (metis append.assoc append_Cons append_Nil)
    then have q: "prefix ((x # xs) @ butlast old) (x # xs @ old @ b)"
      by (metis prefixI)
    have "length old \<le> length ((x # xs) @ butlast old)" by simp
    from prefix_length_prefix [OF p q this] have "sublist old ((x # xs) @ butlast old)"
      by (rule prefix_imp_sublist)
    with Cons.prems show False by simp
  qed
  have "\<not> sublist old (xs @ butlast old)"
    using Cons.prems by (auto simp: sublist_Cons_right)
  with Cons.IH np show ?case by simp
qed

lemma str_replace_first:
  assumes "old \<noteq> []" and "\<not> sublist old (a @ butlast old)"
  shows "str_replace old new (a @ old @ b) = a @ new @ str_replace old new b"
  using assms by (simp add: str_replace_def replace_nonempty_first)

lemma str_replace_foreign:
  assumes "\<not> set old \<subseteq> set s"
  shows "str_replace old new s = s"
proof (rule str_replace_no_occurrence)
  show "\<not> sublist old s" using assms set_mono_sublist by blast
qed

lemma template_marker:
  "sublist (ascii ''{PACKAGE_NAME}'') (ascii ''name = {PACKAGE_NAME}'')"
  unfolding contains_iff_sublist [symmetric] by (simp add: ascii_def)

lemma or_default_nonempty: "d \<noteq> [] \<Longrightarrow> or_default x d \<noteq> []"
  by (simp add: or_default_def)

lemma str_nat_nonempty: "str_nat n \<noteq> []"
  by (subst str_nat.simps) simp

lemma lower_cp_nonempty: "lower_cp c \<noteq> []"
  by (simp add: lower_cp_def)

lemma default_package_name_nonempty: "pn \<noteq> [] \<Longrightarrow> default_package_name pn \<noteq> []"
  by (cases pn) (simp_all add: default_package_name_def py_lower_def re_sub_dash_map
      lower_cp_nonempty)

section \<open>Facts about the file passes\<close>

text \<open>
  The keys of the dictionary are pairwise different, so the list of its items has one
  entry for each key, in the order of the source.
\<close>

lemma replacements_keys_distinct: "distinct (map fst (replacements cfg))"
  by (simp add: replacements_def ascii_def)

lemma apply_replacements_foldl:
  "apply_replacements rs content = foldl (\<lambda>c (old, new). str_replace old new c) content rs"
  by (induction rs content rule: apply_replacements.induct) simp_all

lemma path_exists_eval:
  "path_exists p w =
     (if unsearchable w p then Inl OSError else Inr (files w p \<noteq> None), w)"
  by (simp add: path_exists_def unsearchable_def split: option.splits)

lemma replace_in_file_effect:
  "replace_in_file p repl w =
     (Inr (),
      w\<lparr>files := (files w)(p := (if files w p = None then None else file_after repl (files w p))),
        stdout := stdout w @ [outcome_message p
          (if files w p = None then OutcomeFailed else file_outcome repl (files w p))]\<rparr>)"
  by (auto simp: replace_in_file_def io_bind_def read_text_def write_text_def print_def
      is_Exception_def file_after_def file_outcome_def outcome_message_def
      split: option.splits intro!: world.equality)

lemma update_files_effect:
  "distinct fl \<Longrightarrow>
   update_files fl repl w =
     (if list_all (\<lambda>p. \<not> unsearchable w p) fl then Inr () else Inl OSError,
      w\<lparr>files := (\<lambda>p. if p \<in> set (takeWhile (\<lambda>p. \<not> unsearchable w p) fl)
                        then file_after repl (files w p) else files w p),
        stdout := stdout w @ map (\<lambda>p. outcome_message p (file_outcome repl (files w p)))
                    (takeWhile (\<lambda>p. \<not> unsearchable w p) fl)\<rparr>)"
proof (induction fl arbitrary: w)
  case Nil
  show ?case by simp
next
  case (Cons p ps)
  have d: "distinct ps" and np: "p \<notin> set ps" using Cons.prems by simp_all
  show ?case
  proof (cases "unsearchable w p")
    case True
    then show ?thesis by (simp add: path_exists_eval)
  next
    case False
    define w1 where "w1 =
      (if files w p = None then print (FileNotFound p) w
       else snd (replace_in_file p repl w))"
    have step: "update_files (p # ps) repl w = update_files ps repl w1"
      using False by (simp add: path_exists_eval w1_def io_bind_def replace_in_file_effect)
    have f1: "files w1 = (files w)(p := file_after repl (files w p))"
      by (auto simp: w1_def print_def replace_in_file_effect file_after_def)
    have o1: "stdout w1 = stdout w @ [outcome_message p (file_outcome repl (files w p))]"
      by (auto simp: w1_def print_def replace_in_file_effect file_outcome_def outcome_message_def)
    have r1: "denied w1 = denied w" "stdin w1 = stdin w" "cwd_name w1 = cwd_name w"
      "current_year w1 = current_year w" "world.more w1 = world.more w"
      by (auto simp: w1_def print_def replace_in_file_effect)
    have same: "files w1 q = files w q" if "q \<in> set ps" for q
      using that np by (auto simp: f1)
    have u: "unsearchable w1 q = unsearchable w q" if "q \<in> set ps" for q
      using same [OF that] by (simp add: unsearchable_def r1)
    have tw: "takeWhile (\<lambda>q. \<not> unsearchable w1 q) ps = takeWhile (\<lambda>q. \<not> unsearchable w q) ps"
      by (rule takeWhile_cong) (simp_all add: u)
    have la: "list_all (\<lambda>q. \<not> unsearchable w1 q) ps = list_all (\<lambda>q. \<not> unsearchable w q) ps"
      by (simp add: list_all_iff u)
    have sub: "set (takeWhile (\<lambda>q. \<not> unsearchable w q) ps) \<subseteq> set ps"
      by (auto dest: set_takeWhileD)
    have mp: "map (\<lambda>q. outcome_message q (file_outcome repl (files w1 q)))
                (takeWhile (\<lambda>q. \<not> unsearchable w q) ps)
            = map (\<lambda>q. outcome_message q (file_outcome repl (files w q)))
                (takeWhile (\<lambda>q. \<not> unsearchable w q) ps)"
      by (rule map_cong) (use sub same in auto)
    have fl: "(\<lambda>q. if q \<in> set (takeWhile (\<lambda>q. \<not> unsearchable w q) ps)
                    then file_after repl (files w1 q) else files w1 q)
            = (\<lambda>q. if q = p \<or> q \<in> set (takeWhile (\<lambda>q. \<not> unsearchable w q) ps)
                    then file_after repl (files w q) else files w q)"
    proof (rule ext)
      fix q
      show "(if q \<in> set (takeWhile (\<lambda>q. \<not> unsearchable w q) ps)
               then file_after repl (files w1 q) else files w1 q)
          = (if q = p \<or> q \<in> set (takeWhile (\<lambda>q. \<not> unsearchable w q) ps)
               then file_after repl (files w q) else files w q)"
        using sub np same [of q] by (auto simp: f1)
    qed
    show ?thesis
      unfolding step Cons.IH [OF d] tw la mp fl
      using False
      by (auto simp: o1 r1 intro!: world.equality)
  qed
qed

text \<open>
  The main pass over the seven targets, in every world: it handles the targets in order up
  to the first one that may not be examined, and raises there; it returns normally when
  there is none. Every target it handles gets one printed outcome, and both the outcome
  and the file left behind depend on that file alone: a failed read or write and a
  missing file never end the pass.
\<close>

lemma update_files_targets:
  "update_files files_to_update repl w =
     (if list_all (\<lambda>p. \<not> unsearchable w p) files_to_update then Inr () else Inl OSError,
      w\<lparr>files := (\<lambda>p. if p \<in> set (takeWhile (\<lambda>p. \<not> unsearchable w p) files_to_update)
                        then file_after repl (files w p) else files w p),
        stdout := stdout w @ map (\<lambda>p. outcome_message p (file_outcome repl (files w p)))
                    (takeWhile (\<lambda>p. \<not> unsearchable w p) files_to_update)\<rparr>)"
  by (rule update_files_effect) (simp add: files_to_update_def)

lemma write_text_other:
  "write_text p c w = (r, w') \<Longrightarrow> q \<noteq> p \<Longrightarrow> files w' q = files w q"
  by (auto simp: write_text_def split: option.splits if_splits)

lemma update_repository_url_other:
  "q \<notin> set fl \<Longrightarrow> files (snd (update_repository_url fl cfg w)) q = files w q"
proof (induction fl arbitrary: w)
  case Nil
  show ?case by simp
next
  case (Cons p ps)
  then have qp: "q \<noteq> p" and q: "q \<notin> set ps" by auto
  show ?case
    using Cons.IH [OF q] qp
    by (auto simp: io_bind_def read_text_def path_exists_def
        split: option.splits prod.splits sum.splits
        dest: write_text_other)
qed

lemma url_rewrite_eq:
  "str_replace (ascii ''<repository-url>'') (repository_url cfg) c = url_rewrite cfg c"
  by (simp add: url_rewrite_def repository_url_def)

lemma update_repository_url_rewritable:
  assumes "rewritable cfg w p"
  shows "update_repository_url (p # ps) cfg w =
           update_repository_url ps cfg
             (w\<lparr>files := (files w)(p := url_rewritten cfg (files w p))\<rparr>)"
  using assms
  by (auto simp: rewritable_def url_rewritten_def path_exists_def io_bind_def read_text_def
      write_text_def url_rewrite_eq split: option.splits
      intro!: arg_cong [where f = "update_repository_url ps cfg"] world.equality)

lemma update_repository_url_absent:
  assumes "absent w p"
  shows "update_repository_url (p # ps) cfg w = update_repository_url ps cfg w"
  using assms by (simp add: absent_def path_exists_def)

lemma update_repository_url_present:
  assumes "absent w p \<or> rewritable cfg w p"
  shows "update_repository_url (p # ps) cfg w =
           update_repository_url ps cfg
             (w\<lparr>files := (files w)(p := url_rewritten cfg (files w p))\<rparr>)"
proof (cases "rewritable cfg w p")
  case True
  then show ?thesis by (rule update_repository_url_rewritable)
next
  case False
  with assms have a: "absent w p" by simp
  then have "(files w)(p := url_rewritten cfg (files w p)) = files w"
    by (auto simp: absent_def url_rewritten_def)
  then show ?thesis
    unfolding update_repository_url_absent [OF a] by simp
qed

lemma rewritable_other:
  "q \<noteq> p \<Longrightarrow> rewritable cfg (w\<lparr>files := (files w)(p := x)\<rparr>) q = rewritable cfg w q"
  by (simp add: rewritable_def)

lemma absent_other:
  "q \<noteq> p \<Longrightarrow> absent (w\<lparr>files := (files w)(p := x)\<rparr>) q = absent w q"
  by (simp add: absent_def)

section \<open>Facts about the placeholder tokens\<close>

lemma replace_project_tokens:
  "str_replace (ascii ''{PROJECT_NAME}'') v (concat (map token_text ts))
     = concat (map (\<lambda>t. case t of ProjectToken \<Rightarrow> v | PackageToken \<Rightarrow> token_text t) ts)"
proof (induction ts)
  case Nil
  show ?case by (simp add: str_replace_def ascii_def)
next
  case (Cons t ts)
  then show ?case by (cases t) (simp_all add: str_replace_def ascii_def)
qed

lemma replace_package_tokens:
  "str_replace (ascii ''{PACKAGE_NAME}'') v
       (concat (map (\<lambda>t. case t of ProjectToken \<Rightarrow> ascii ''Foo'' | PackageToken \<Rightarrow> token_text t) ts))
     = concat (map (\<lambda>t. case t of ProjectToken \<Rightarrow> ascii ''Foo'' | PackageToken \<Rightarrow> v) ts)"
proof (induction ts)
  case Nil
  show ?case by (simp add: str_replace_def ascii_def)
next
  case (Cons t ts)
  then show ?case by (cases t) (simp_all add: str_replace_def ascii_def)
qed

lemma foo_bar_letters:
  "set (concat (map (\<lambda>t. case t of ProjectToken \<Rightarrow> ascii ''Foo'' | PackageToken \<Rightarrow> ascii ''bar'') ts))
     \<subseteq> {70, 111, 98, 97, 114}"
  by (induction ts) (auto simp: ascii_def split: token.splits)

lemma foo_bar_untouched:
  assumes "hd old \<notin> {70, 111, 98, 97, 114}" and "old \<noteq> []"
  shows "str_replace old new
           (concat (map (\<lambda>t. case t of ProjectToken \<Rightarrow> ascii ''Foo'' | PackageToken \<Rightarrow> ascii ''bar'') ts))
         = concat (map (\<lambda>t. case t of ProjectToken \<Rightarrow> ascii ''Foo'' | PackageToken \<Rightarrow> ascii ''bar'') ts)"
proof (rule str_replace_foreign)
  have "hd old \<in> set old" using assms(2) by simp
  with assms(1) foo_bar_letters [of ts]
  show "\<not> set old \<subseteq> set (concat (map (\<lambda>t. case t of ProjectToken \<Rightarrow> ascii ''Foo''
                                            | PackageToken \<Rightarrow> ascii ''bar'') ts))"
    by blast
qed

section \<open>Facts about input collection and the main function\<close>

lemma py_input_Line: "stdin w = Line s # es \<Longrightarrow> py_input w = (Inr s, w\<lparr>stdin := es\<rparr>)"
  by (simp add: py_input_def)

lemma py_input_Interrupt:
  "stdin w = Interrupt # es \<Longrightarrow> py_input w = (Inl KeyboardInterrupt, w\<lparr>stdin := es\<rparr>)"
  by (simp add: py_input_def)

lemma py_input_cases:
  assumes "py_input w = (res, w')"
  shows "files w' = files w \<and> stdout w' = stdout w \<and> cwd_name w' = cwd_name w
         \<and> current_year w' = current_year w
         \<and> (case res of Inl e \<Rightarrow> True | Inr s \<Rightarrow> stdin w = Line s # stdin w')"
  using assms by (auto simp: py_input_def split: list.splits event.splits)

lemma io_bind_py_input_Line:
  "stdin w = Line s # es \<Longrightarrow> io_bind py_input f w = f s (w\<lparr>stdin := es\<rparr>)"
  by (simp add: io_bind_def py_input_Line)

lemma io_bind_py_input_Interrupt:
  "stdin w = Interrupt # es \<Longrightarrow>
   io_bind py_input f w = (Inl KeyboardInterrupt, w\<lparr>stdin := es\<rparr>)"
  by (simp add: io_bind_def py_input_Interrupt)

lemma get_user_input_lines:
  assumes "stdin w = Line r1 # Line r2 # Line r3 # Line r4 # Line r5 # Line r6 # rest"
  shows "get_user_input w =
    (Inr \<lparr>project_name = or_default (py_strip r1) (cwd_name w),
          package_name = or_default (py_strip r2)
             (default_package_name (or_default (py_strip r1) (cwd_name w))),
          github_org = or_default (py_strip r3) (ascii ''ethereum''),
          author_name = or_default (py_strip r4) (ascii ''Ethereum Foundation''),
          author_email = or_default (py_strip r5) (ascii ''security@ethereum.org''),
          year = or_default (py_strip r6) (str_nat (current_year w))\<rparr>,
     w\<lparr>stdin := rest\<rparr>)"
  using assms by (simp add: get_user_input_def Let_def io_bind_py_input_Line)

lemma get_user_input_cases:
  assumes "get_user_input w = (res, w')"
  shows "files w' = files w \<and> stdout w' = stdout w
     \<and> (case res of Inl e \<Rightarrow> True
         | Inr cfg \<Rightarrow> \<exists>r1 r2 r3 r4 r5 r6.
             stdin w = Line r1 # Line r2 # Line r3 # Line r4 # Line r5 # Line r6 # stdin w'
             \<and> cfg = \<lparr>project_name = or_default (py_strip r1) (cwd_name w),
                  package_name = or_default (py_strip r2)
                     (default_package_name (or_default (py_strip r1) (cwd_name w))),
                  github_org = or_default (py_strip r3) (ascii ''ethereum''),
                  author_name = or_default (py_strip r4) (ascii ''Ethereum Foundation''),
                  author_email = or_default (py_strip r5) (ascii ''security@ethereum.org''),
                  year = or_default (py_strip r6) (str_nat (current_year w))\<rparr>)"
  using assms
  by (auto simp: get_user_input_def Let_def io_bind_def py_input_def
      split: list.splits event.splits)

lemma main_precondition:
  assumes "files w ''pyproject.toml'' = Some n" and "data n = Some c"
    and "sublist (ascii ''{PACKAGE_NAME}'') c"
  shows "main w =
    (case main_try w of
       (Inr u, w2) \<Rightarrow> (0, w2)
     | (Inl e, w2) \<Rightarrow>
         if e = KeyboardInterrupt then (0, print SetupCancelled w2)
         else (1, print ErrorOccurred w2))"
  using assms by (simp add: main_def path_exists_def read_text_def contains_iff_sublist)

lemma main_declined:
  assumes "files w ''pyproject.toml'' = Some n" and "data n = Some c"
    and "sublist (ascii ''{PACKAGE_NAME}'') c"
    and "stdin w = Line r1 # Line r2 # Line r3 # Line r4 # Line r5 # Line r6 # Line r # rest"
    and "py_lower (py_strip r) \<notin> {ascii '''', ascii ''y'', ascii ''yes''}"
  shows "main w = (0, w\<lparr>stdin := rest, stdout := stdout w @ [SetupCancelled]\<rparr>)"
  using assms(5)
  by (simp add: main_precondition [OF assms(1-3)] main_try_def io_bind_def
      get_user_input_lines [OF assms(4)] py_input_def print_def)

lemma length_le_6:
  assumes "length (rs :: 'a list) \<le> 6"
  shows "rs = [] \<or> (\<exists>a. rs = [a]) \<or> (\<exists>a b. rs = [a, b]) \<or> (\<exists>a b c. rs = [a, b, c])
     \<or> (\<exists>a b c d. rs = [a, b, c, d]) \<or> (\<exists>a b c d e. rs = [a, b, c, d, e])
     \<or> (\<exists>a b c d e f. rs = [a, b, c, d, e, f])"
proof -
  have "length rs = 0 \<or> length rs = 1 \<or> length rs = 2 \<or> length rs = 3 \<or> length rs = 4
      \<or> length rs = 5 \<or> length rs = 6"
    using assms by arith
  then show ?thesis
    by (auto simp: length_Suc_conv eval_nat_numeral)
qed

lemma main_try_mutation:
  assumes "main_try w = (res, w')" and "files w' \<noteq> files w"
  shows "\<exists>r1 r2 r3 r4 r5 r6 r rest.
           stdin w = Line r1 # Line r2 # Line r3 # Line r4 # Line r5 # Line r6 # Line r # rest
           \<and> py_lower (py_strip r) \<in> {ascii '''', ascii ''y'', ascii ''yes''}"
proof -
  obtain res1 w1 where g: "get_user_input w = (res1, w1)" by (cases "get_user_input w")
  note g1 = get_user_input_cases [OF g]
  show ?thesis
  proof (cases res1)
    case (Inl e)
    with g assms g1 show ?thesis by (auto simp: main_try_def io_bind_def)
  next
    case (Inr cfg)
    obtain res2 w2 where i: "py_input w1 = (res2, w2)" by (cases "py_input w1")
    note i1 = py_input_cases [OF i]
    show ?thesis
    proof (cases res2)
      case (Inl e)
      with Inr g i assms g1 i1 show ?thesis by (auto simp: main_try_def io_bind_def)
    next
      case r: (Inr r)
      show ?thesis
      proof (cases "py_lower (py_strip r) \<in> {ascii '''', ascii ''y'', ascii ''yes''}")
        case True
        with Inr r g1 i1 show ?thesis by auto
      next
        case False
        with Inr r g i assms g1 i1 show ?thesis
          by (auto simp: main_try_def io_bind_def print_def)
      qed
    qed
  qed
qed

lemma main_mutation:
  assumes "files (snd (main w)) \<noteq> files w"
  shows "\<exists>r1 r2 r3 r4 r5 r6 r rest.
           stdin w = Line r1 # Line r2 # Line r3 # Line r4 # Line r5 # Line r6 # Line r # rest
           \<and> py_lower (py_strip r) \<in> {ascii '''', ascii ''y'', ascii ''yes''}"
proof -
  obtain res w' where t: "main_try w = (res, w')" by (cases "main_try w")
  have "files w' \<noteq> files w"
    using assms t
    by (auto simp: main_def path_exists_def read_text_def print_def
        split: option.splits if_splits sum.splits)
  with t show ?thesis by (rule main_try_mutation)
qed

text \<open>
  One complete run on the fresh template: six empty answers and the confirmation \<^verbatim>\<open>Y\<close>.
\<close>

lemma main_example_run:
  "(case main (template_world\<lparr>stdin := [Line [], Line [], Line [], Line [], Line [], Line [],
                                         Line (ascii ''Y'')]\<rparr>) of
      (status, w) \<Rightarrow>
        status = 0
        \<and> stdout w =
            [Updated ''pyproject.toml'', ErrorUpdating ''mkdocs.yml'', Updated ''README.md'',
             ErrorUpdating ''LICENSE'', FileNotFound ''docs/index.md'',
             FileNotFound ''.github/ISSUE_TEMPLATE/bug_report.md'',
             FileNotFound ''.github/ISSUE_TEMPLATE/feature_request.md'', SetupComplete]
        \<and> files w ''README.md'' =
            Some \<lparr>data = Some (ascii ''my-specs at https://github.com/ethereum/my-specs''),
                  writable = True\<rparr>
        \<and> files w ''pyproject.toml'' =
            Some \<lparr>data = Some (ascii ''name = my-specs''), writable = True\<rparr>
        \<and> files w ''LICENSE'' = files template_world ''LICENSE'')"
  by (simp add: main_def main_try_def setup_project_def get_user_input_def io_bind_def
      py_input_def path_exists_def read_text_def write_text_def print_def replace_in_file_def
      is_Exception_def template_world_def files_to_update_def repository_url_files_def
      replacements_def repository_url_def default_package_name_def or_default_def py_strip_def
      py_lower_def lower_cp_def in_class_def is_space_def str_replace_def utf8_encodable_def
      str_nat.simps ascii_def Let_def)

section \<open>The claims\<close>

text \<open>
  C1. If \<^verbatim>\<open>pyproject.toml\<close> does not exist in the current directory, or exists but does
  not contain the literal substring \<^verbatim>\<open>{PACKAGE_NAME}\<close> (a file that cannot be read
  contains nothing), then the tool exits with status 1 before it collects any input:
  standard input is as it was, and every file is as it was.
\<close>

theorem main_refuses:
  "(files w ''pyproject.toml'' = None
    \<or> (\<exists>n. files w ''pyproject.toml'' = Some n
          \<and> (\<forall>c. data n = Some c \<longrightarrow> \<not> sublist (ascii ''{PACKAGE_NAME}'') c)))
   \<longrightarrow> fst (main w) = 1 \<and> files (snd (main w)) = files w \<and> stdin (snd (main w)) = stdin w"
  by (auto simp: main_def path_exists_def read_text_def contains_iff_sublist print_def
      split: option.splits)

theorem main_refuses_witness:
  "main configured_world = (1, configured_world\<lparr>stdout := [AlreadyConfigured]\<rparr>)
   \<and> fst (main configured_world) = 1
   \<and> files (snd (main configured_world)) = files configured_world
   \<and> stdin (snd (main configured_world)) = stdin configured_world"
proof -
  have n: "\<not> sublist (ascii ''{PACKAGE_NAME}'') (ascii ''name = acme-specs'')"
    unfolding contains_iff_sublist [symmetric] by (simp add: ascii_def)
  have h: "files configured_world ''pyproject.toml'' = None
    \<or> (\<exists>n. files configured_world ''pyproject.toml'' = Some n
          \<and> (\<forall>c. data n = Some c \<longrightarrow> \<not> sublist (ascii ''{PACKAGE_NAME}'') c))"
    using n by (simp add: configured_world_def)
  have m: "main configured_world = (1, configured_world\<lparr>stdout := [AlreadyConfigured]\<rparr>)"
    using n
    by (simp add: main_def path_exists_def read_text_def contains_iff_sublist print_def
        configured_world_def)
  show ?thesis
    using main_refuses [of configured_world] h m by simp
qed

text \<open>
  C2. Applying the substitution map to a file content is the left fold of the single-pair
  replacement over the pairs in map order, starting from the original content. For a
  readable and writable file \<open>replace_in_file\<close> writes that fold and reports the file
  updated when the fold can be encoded as UTF-8; when it cannot (a configured value with
  a surrogate code point has been put in), the write raises after the file has been
  emptied, and the file is reported as an error. The single-pair replacement is literal: a
  content in which the token does not occur is left as it is, and the first occurrence of
  the token is replaced by the new text, after which the replacement goes on behind it.
  The concrete run that follows the theorem shows a later pair transforming the text an
  earlier pair has inserted: the package name \<^verbatim>\<open>2024\<close> put in for
  \<^verbatim>\<open>{PACKAGE_NAME}\<close> becomes the year \<^verbatim>\<open>2030\<close>.
\<close>

theorem replace_in_file_left_fold:
  "apply_replacements rs content = foldl (\<lambda>c (old, new). str_replace old new c) content rs
   \<and> (files w p = Some n \<and> data n = Some content \<and> writable n
        \<and> utf8_encodable
             (foldl (\<lambda>c (old, new). str_replace old new c) content (replacements cfg)) \<longrightarrow>
        replace_in_file p (replacements cfg) w =
          (Inr (), w\<lparr>files := (files w)(p \<mapsto> n\<lparr>data := Some
                       (foldl (\<lambda>c (old, new). str_replace old new c) content (replacements cfg))\<rparr>),
                    stdout := stdout w @ [Updated p]\<rparr>))
   \<and> (files w p = Some n \<and> data n = Some content \<and> writable n
        \<and> \<not> utf8_encodable
             (foldl (\<lambda>c (old, new). str_replace old new c) content (replacements cfg)) \<longrightarrow>
        replace_in_file p (replacements cfg) w =
          (Inr (), w\<lparr>files := (files w)(p \<mapsto> n\<lparr>data := Some []\<rparr>),
                    stdout := stdout w @ [ErrorUpdating p]\<rparr>))
   \<and> (\<not> sublist old s \<longrightarrow> str_replace old new s = s)
   \<and> (old \<noteq> [] \<and> \<not> sublist old (a @ butlast old) \<longrightarrow>
        str_replace old new (a @ old @ b) = a @ new @ str_replace old new b)"
proof (intro conjI impI)
  show "apply_replacements rs content = foldl (\<lambda>c (old, new). str_replace old new c) content rs"
    by (rule apply_replacements_foldl)
  show "replace_in_file p (replacements cfg) w =
          (Inr (), w\<lparr>files := (files w)(p \<mapsto> n\<lparr>data := Some
                       (foldl (\<lambda>c (old, new). str_replace old new c) content (replacements cfg))\<rparr>),
                    stdout := stdout w @ [Updated p]\<rparr>)"
    if "files w p = Some n \<and> data n = Some content \<and> writable n
        \<and> utf8_encodable
             (foldl (\<lambda>c (old, new). str_replace old new c) content (replacements cfg))"
    using that
    by (simp add: replace_in_file_effect file_after_def file_outcome_def outcome_message_def
        apply_replacements_foldl)
  show "replace_in_file p (replacements cfg) w =
          (Inr (), w\<lparr>files := (files w)(p \<mapsto> n\<lparr>data := Some []\<rparr>),
                    stdout := stdout w @ [ErrorUpdating p]\<rparr>)"
    if "files w p = Some n \<and> data n = Some content \<and> writable n
        \<and> \<not> utf8_encodable
             (foldl (\<lambda>c (old, new). str_replace old new c) content (replacements cfg))"
    using that
    by (simp add: replace_in_file_effect file_after_def file_outcome_def outcome_message_def
        apply_replacements_foldl)
  show "str_replace old new s = s" if "\<not> sublist old s"
    using that by (rule str_replace_no_occurrence)
  show "str_replace old new (a @ old @ b) = a @ new @ str_replace old new b"
    if "old \<noteq> [] \<and> \<not> sublist old (a @ butlast old)"
    using that by (simp add: str_replace_first)
qed

theorem replace_in_file_left_fold_witness:
  "replace_in_file ''README.md'' (replacements example_config) template_world =
     (Inr (), template_world\<lparr>files := (files template_world)(''README.md'' \<mapsto>
                  \<lparr>data = Some (ascii ''2030 at <repository-url>''), writable = True\<rparr>),
                stdout := [Updated ''README.md'']\<rparr>)
   \<and> replace_in_file ''README.md'' (replacements surrogate_config)
        (template_world\<lparr>files := (files template_world)(''README.md'' \<mapsto>
           \<lparr>data = Some (ascii ''By {AUTHOR_NAME}''), writable = True\<rparr>)\<rparr>) =
     (Inr (), template_world\<lparr>files := (files template_world)(''README.md'' \<mapsto>
                  \<lparr>data = Some [], writable = True\<rparr>),
                stdout := [ErrorUpdating ''README.md'']\<rparr>)"
proof -
  let ?n = "\<lparr>data = Some (ascii ''{PACKAGE_NAME} at <repository-url>''), writable = True\<rparr>"
  let ?m = "\<lparr>data = Some (ascii ''By {AUTHOR_NAME}''), writable = True\<rparr>"
  let ?v = "template_world\<lparr>files := (files template_world)(''README.md'' \<mapsto> ?m)\<rparr>"
  have e: "foldl (\<lambda>c (old, new). str_replace old new c)
             (ascii ''{PACKAGE_NAME} at <repository-url>'') (replacements example_config)
           = ascii ''2030 at <repository-url>''"
    by (simp add: replacements_def example_config_def repository_url_def str_replace_def ascii_def)
  have h: "files template_world ''README.md'' = Some ?n
      \<and> data ?n = Some (ascii ''{PACKAGE_NAME} at <repository-url>'') \<and> writable ?n
      \<and> utf8_encodable (foldl (\<lambda>c (old, new). str_replace old new c)
             (ascii ''{PACKAGE_NAME} at <repository-url>'') (replacements example_config))"
    unfolding e by (simp add: template_world_def utf8_encodable_def ascii_def)
  have f: "foldl (\<lambda>c (old, new). str_replace old new c)
             (ascii ''By {AUTHOR_NAME}'') (replacements surrogate_config)
           = ascii ''By Andr'' @ [56553]"
    by (simp add: replacements_def surrogate_config_def repository_url_def str_replace_def ascii_def)
  have k: "files ?v ''README.md'' = Some ?m
      \<and> data ?m = Some (ascii ''By {AUTHOR_NAME}'') \<and> writable ?m
      \<and> \<not> utf8_encodable (foldl (\<lambda>c (old, new). str_replace old new c)
             (ascii ''By {AUTHOR_NAME}'') (replacements surrogate_config))"
    unfolding f by (simp add: utf8_encodable_def ascii_def)
  have s: "stdout template_world = []"
    by (simp add: template_world_def)
  have one: "replace_in_file ''README.md'' (replacements example_config) template_world =
     (Inr (), template_world\<lparr>files := (files template_world)(''README.md'' \<mapsto>
                  \<lparr>data = Some (ascii ''2030 at <repository-url>''), writable = True\<rparr>),
                stdout := [Updated ''README.md'']\<rparr>)"
    using replace_in_file_left_fold [of "[]" "ascii ''{PACKAGE_NAME} at <repository-url>''"
        template_world "''README.md''" ?n example_config "[]" "[]" "[]" "[]" "[]"] h
    by (simp add: e s)
  have two: "replace_in_file ''README.md'' (replacements surrogate_config) ?v =
     (Inr (), template_world\<lparr>files := (files template_world)(''README.md'' \<mapsto>
                  \<lparr>data = Some [], writable = True\<rparr>),
                stdout := [ErrorUpdating ''README.md'']\<rparr>)"
    using replace_in_file_left_fold [of "[]" "ascii ''By {AUTHOR_NAME}''"
        ?v "''README.md''" ?m surrogate_config "[]" "[]" "[]" "[]" "[]"] k
    by (simp add: s)
  from one two show ?thesis by (rule conjI)
qed

text \<open>
  C3, as stated: the default of the package name is the project name with every
  character outside \<^verbatim>\<open>[a-zA-Z0-9_-]\<close> mapped to \<open>-\<close> and the result lowercased. The
  code lowercases first. For the project name made of the Kelvin sign U+212A alone the
  code computes \<open>k\<close>, the statement \<open>-\<close>.
\<close>

theorem default_package_name_counterexample:
  "default_package_name [8490] = ascii ''k''
   \<and> spec_default_package_name [8490] = ascii ''-''
   \<and> default_package_name [8490] \<noteq> spec_default_package_name [8490]"
  by (simp add: default_package_name_def spec_default_package_name_def py_lower_def
      lower_cp_def in_class_def ascii_def)

text \<open>
  C3, amended: the default of the package name is the lowercased project name with every
  character outside \<^verbatim>\<open>[a-zA-Z0-9_-]\<close> mapped to \<open>-\<close>; for a project name of ASCII
  characters this is also the result of mapping first and lowercasing afterwards; for
  \<^verbatim>\<open>My Cool App!\<close> it is \<^verbatim>\<open>my-cool-app-\<close>.
\<close>

theorem default_package_name_lower_then_sub:
  "default_package_name pn = map (\<lambda>c. if in_class c then c else 45) (py_lower pn)
   \<and> ((\<forall>c\<in>set pn. c < 128) \<longrightarrow> default_package_name pn = spec_default_package_name pn)
   \<and> default_package_name (ascii ''My Cool App!'') = ascii ''my-cool-app-''"
proof (intro conjI impI)
  show "default_package_name pn = map (\<lambda>c. if in_class c then c else 45) (py_lower pn)"
    by (simp add: default_package_name_def re_sub_dash_map)
  show "default_package_name pn = spec_default_package_name pn" if "\<forall>c\<in>set pn. c < 128"
    using that by (rule sanitize_orders_agree)
  show "default_package_name (ascii ''My Cool App!'') = ascii ''my-cool-app-''"
    by (simp add: default_package_name_def py_lower_def lower_cp_def in_class_def ascii_def)
qed

theorem default_package_name_lower_then_sub_witness:
  "default_package_name (ascii ''Foo Bar'') = ascii ''foo-bar''
   \<and> spec_default_package_name (ascii ''Foo Bar'') = ascii ''foo-bar''"
proof -
  have a: "\<forall>c\<in>set (ascii ''Foo Bar''). c < 128"
    by (simp add: ascii_def)
  have "default_package_name (ascii ''Foo Bar'') = spec_default_package_name (ascii ''Foo Bar'')"
    using default_package_name_lower_then_sub [of "ascii ''Foo Bar''"] a by blast
  moreover have "spec_default_package_name (ascii ''Foo Bar'') = ascii ''foo-bar''"
    by (simp add: spec_default_package_name_def py_lower_def lower_cp_def in_class_def ascii_def)
  ultimately show ?thesis by simp
qed

text \<open>
  C4. The claim: in the main pass a read, write or decoding failure on one file gives a
  failed outcome for that file only, a missing file gives a missing outcome, and in
  neither case are the files after it left out. \<open>replace_in_file\<close> catches the
  failures of the read and of the write, but the existence check of line 106 is outside
  its \<^verbatim>\<open>try\<close>. On the template whose \<^verbatim>\<open>docs\<close> directory may not be searched, the
  check of \<^verbatim>\<open>docs/index.md\<close> raises: the pass ends there with an exception, the two
  issue templates behind it are never processed (the first keeps its placeholder), no
  outcome is printed for any of the three, and the process exits with status 1.
\<close>

theorem update_files_unsearchable:
  "fst (update_files files_to_update (replacements example_config) unsearchable_docs_world)
     = Inl OSError
   \<and> (case main (unsearchable_docs_world\<lparr>stdin := [Line [], Line [], Line [], Line [], Line [],
                                                    Line [], Line (ascii ''y'')]\<rparr>) of
        (status, w) \<Rightarrow>
          status = 1
          \<and> stdout w =
              [Updated ''pyproject.toml'', ErrorUpdating ''mkdocs.yml'', Updated ''README.md'',
               ErrorUpdating ''LICENSE'', ErrorOccurred]
          \<and> files w ''.github/ISSUE_TEMPLATE/bug_report.md'' =
              Some \<lparr>data = Some (ascii ''Bug in {PROJECT_NAME}''), writable = True\<rparr>)"
proof (rule conjI)
  have d: "distinct files_to_update"
    by (simp add: files_to_update_def)
  show "fst (update_files files_to_update (replacements example_config) unsearchable_docs_world)
     = Inl OSError"
    unfolding update_files_effect [OF d]
    by (simp add: files_to_update_def unsearchable_def unsearchable_docs_world_def
        template_world_def)
  show "case main (unsearchable_docs_world\<lparr>stdin := [Line [], Line [], Line [], Line [], Line [],
                                                    Line [], Line (ascii ''y'')]\<rparr>) of
        (status, w) \<Rightarrow>
          status = 1
          \<and> stdout w =
              [Updated ''pyproject.toml'', ErrorUpdating ''mkdocs.yml'', Updated ''README.md'',
               ErrorUpdating ''LICENSE'', ErrorOccurred]
          \<and> files w ''.github/ISSUE_TEMPLATE/bug_report.md'' =
              Some \<lparr>data = Some (ascii ''Bug in {PROJECT_NAME}''), writable = True\<rparr>"
    by (simp add: main_def main_try_def setup_project_def get_user_input_def io_bind_def
        py_input_def path_exists_def read_text_def write_text_def print_def replace_in_file_def
        is_Exception_def unsearchable_docs_world_def template_world_def files_to_update_def
        replacements_def repository_url_def default_package_name_def or_default_def
        py_strip_def py_lower_def lower_cp_def in_class_def is_space_def str_replace_def
        utf8_encodable_def str_nat.simps ascii_def Let_def)
qed

text \<open>
  C5, as stated: the second pass replaces every occurrence of the sentinel in
  \<^verbatim>\<open>README.md\<close> and in \<^verbatim>\<open>docs/index.md\<close> when they are present. With a read-only
  \<^verbatim>\<open>README.md\<close> the write of line 120 raises, nothing catches it in \<open>setup_project\<close>,
  and the pass ends: \<^verbatim>\<open>docs/index.md\<close> is present and keeps its sentinel. So it is
  in the complete run of \<open>main\<close> on that template, which exits with status 1.
\<close>

theorem update_repository_url_counterexample:
  "update_repository_url repository_url_files example_config readonly_readme_world
     = (Inl OSError, readonly_readme_world)
   \<and> files readonly_readme_world ''docs/index.md'' =
       Some \<lparr>data = Some (ascii ''See <repository-url> or <repository-url>/issues''),
             writable = True\<rparr>
   \<and> (case main (readonly_readme_world\<lparr>stdin := [Line [], Line [], Line [], Line [], Line [],
                                                  Line [], Line (ascii ''y'')]\<rparr>) of
        (status, w) \<Rightarrow>
          status = 1
          \<and> stdout w =
              [Updated ''pyproject.toml'', ErrorUpdating ''mkdocs.yml'',
               ErrorUpdating ''README.md'', ErrorUpdating ''LICENSE'', Updated ''docs/index.md'',
               FileNotFound ''.github/ISSUE_TEMPLATE/bug_report.md'',
               FileNotFound ''.github/ISSUE_TEMPLATE/feature_request.md'', ErrorOccurred]
          \<and> files w ''docs/index.md'' =
              Some \<lparr>data = Some (ascii ''See <repository-url> or <repository-url>/issues''),
                    writable = True\<rparr>)"
proof (intro conjI)
  show "update_repository_url repository_url_files example_config readonly_readme_world
     = (Inl OSError, readonly_readme_world)"
    by (simp add: repository_url_files_def readonly_readme_world_def documented_world_def
        template_world_def path_exists_def io_bind_def read_text_def write_text_def)
  show "files readonly_readme_world ''docs/index.md'' =
       Some \<lparr>data = Some (ascii ''See <repository-url> or <repository-url>/issues''),
             writable = True\<rparr>"
    by (simp add: readonly_readme_world_def documented_world_def)
  show "case main (readonly_readme_world\<lparr>stdin := [Line [], Line [], Line [], Line [], Line [],
                                                  Line [], Line (ascii ''y'')]\<rparr>) of
        (status, w) \<Rightarrow>
          status = 1
          \<and> stdout w =
              [Updated ''pyproject.toml'', ErrorUpdating ''mkdocs.yml'',
               ErrorUpdating ''README.md'', ErrorUpdating ''LICENSE'', Updated ''docs/index.md'',
               FileNotFound ''.github/ISSUE_TEMPLATE/bug_report.md'',
               FileNotFound ''.github/ISSUE_TEMPLATE/feature_request.md'', ErrorOccurred]
          \<and> files w ''docs/index.md'' =
              Some \<lparr>data = Some (ascii ''See <repository-url> or <repository-url>/issues''),
                    writable = True\<rparr>"
    by (simp add: main_def main_try_def setup_project_def get_user_input_def io_bind_def
        py_input_def path_exists_def read_text_def write_text_def print_def replace_in_file_def
        is_Exception_def readonly_readme_world_def documented_world_def template_world_def
        files_to_update_def repository_url_files_def replacements_def repository_url_def
        default_package_name_def or_default_def py_strip_def py_lower_def lower_cp_def
        in_class_def is_space_def str_replace_def utf8_encodable_def str_nat.simps ascii_def
        Let_def)
qed

text \<open>
  C5, amended: the second pass goes over \<^verbatim>\<open>README.md\<close> and \<^verbatim>\<open>docs/index.md\<close>, on
  the files as the main pass has left them. A \<^verbatim>\<open>README.md\<close> that is present and can
  be read and written (and whose new text can be encoded) holds, afterwards, its content
  with every occurrence of \<^verbatim>\<open><repository-url>\<close> replaced by
  \<^verbatim>\<open>https://github.com/\<close>, the organisation, a slash and the package name. Where each
  of the two files is either absent or can be so rewritten, the pass returns normally and
  both files hold their content with that replacement made, and no other. Whatever
  happens, no file other than these two is touched.
\<close>

theorem update_repository_url_effect:
  "((absent w ''README.md'' \<or> rewritable cfg w ''README.md'')
      \<and> (absent w ''docs/index.md'' \<or> rewritable cfg w ''docs/index.md'') \<longrightarrow>
    update_repository_url repository_url_files cfg w =
      (Inr (), w\<lparr>files := (\<lambda>p.
         if p = ''README.md'' \<or> p = ''docs/index.md'' then url_rewritten cfg (files w p)
         else files w p)\<rparr>))
   \<and> (rewritable cfg w ''README.md'' \<longrightarrow>
        files (snd (update_repository_url repository_url_files cfg w)) ''README.md''
          = url_rewritten cfg (files w ''README.md''))
   \<and> (q \<noteq> ''README.md'' \<and> q \<noteq> ''docs/index.md'' \<longrightarrow>
        files (snd (update_repository_url repository_url_files cfg w)) q = files w q)
   \<and> setup_project cfg w =
       (case update_files files_to_update (replacements cfg) w of
          (Inl e, w1) \<Rightarrow> (Inl e, w1)
        | (Inr u, w1) \<Rightarrow>
            (case update_repository_url repository_url_files cfg w1 of
               (Inl e, w2) \<Rightarrow> (Inl e, w2)
             | (Inr u, w2) \<Rightarrow> (Inr (), print SetupComplete w2)))"
proof (intro conjI impI)
  assume a: "(absent w ''README.md'' \<or> rewritable cfg w ''README.md'')
      \<and> (absent w ''docs/index.md'' \<or> rewritable cfg w ''docs/index.md'')"
  let ?w1 = "w\<lparr>files := (files w)(''README.md'' := url_rewritten cfg (files w ''README.md''))\<rparr>"
  have r: "absent w ''README.md'' \<or> rewritable cfg w ''README.md''"
    using a by simp
  have d: "absent ?w1 ''docs/index.md'' \<or> rewritable cfg ?w1 ''docs/index.md''"
    using a by (simp add: rewritable_other absent_other)
  show "update_repository_url repository_url_files cfg w =
      (Inr (), w\<lparr>files := (\<lambda>p.
         if p = ''README.md'' \<or> p = ''docs/index.md'' then url_rewritten cfg (files w p)
         else files w p)\<rparr>)"
    unfolding repository_url_files_def
    by (simp only: update_repository_url_present [OF r] update_repository_url_present [OF d])
       (auto intro!: world.equality ext)
next
  assume r: "rewritable cfg w ''README.md''"
  let ?w1 = "w\<lparr>files := (files w)(''README.md'' := url_rewritten cfg (files w ''README.md''))\<rparr>"
  have e: "update_repository_url [''README.md'', ''docs/index.md''] cfg w
      = update_repository_url [''docs/index.md''] cfg ?w1"
    by (rule update_repository_url_rewritable [OF r])
  have o: "files (snd (update_repository_url [''docs/index.md''] cfg ?w1)) ''README.md''
      = files ?w1 ''README.md''"
    by (rule update_repository_url_other) simp
  show "files (snd (update_repository_url repository_url_files cfg w)) ''README.md''
          = url_rewritten cfg (files w ''README.md'')"
    unfolding repository_url_files_def e o by simp
next
  assume "q \<noteq> ''README.md'' \<and> q \<noteq> ''docs/index.md''"
  then have "q \<notin> set repository_url_files"
    by (simp add: repository_url_files_def)
  then show "files (snd (update_repository_url repository_url_files cfg w)) q = files w q"
    by (rule update_repository_url_other)
next
  show "setup_project cfg w =
       (case update_files files_to_update (replacements cfg) w of
          (Inl e, w1) \<Rightarrow> (Inl e, w1)
        | (Inr u, w1) \<Rightarrow>
            (case update_repository_url repository_url_files cfg w1 of
               (Inl e, w2) \<Rightarrow> (Inl e, w2)
             | (Inr u, w2) \<Rightarrow> (Inr (), print SetupComplete w2)))"
    by (simp add: setup_project_def io_bind_def split: prod.splits sum.splits)
qed

theorem update_repository_url_effect_witness:
  "update_repository_url repository_url_files example_config documented_world =
     (Inr (), documented_world\<lparr>files := (files documented_world)
        (''README.md'' \<mapsto>
           \<lparr>data = Some (ascii ''{PACKAGE_NAME} at https://github.com/ethereum/2024''),
            writable = True\<rparr>,
         ''docs/index.md'' \<mapsto>
           \<lparr>data = Some (ascii
              ''See https://github.com/ethereum/2024 or https://github.com/ethereum/2024/issues''),
            writable = True\<rparr>)\<rparr>)"
proof -
  have r: "url_rewrite example_config (ascii ''{PACKAGE_NAME} at <repository-url>'')
      = ascii ''{PACKAGE_NAME} at https://github.com/ethereum/2024''"
    by (simp add: url_rewrite_def example_config_def str_replace_def ascii_def)
  have d: "url_rewrite example_config (ascii ''See <repository-url> or <repository-url>/issues'')
      = ascii ''See https://github.com/ethereum/2024 or https://github.com/ethereum/2024/issues''"
    by (simp add: url_rewrite_def example_config_def str_replace_def ascii_def)
  have h: "(absent documented_world ''README.md''
             \<or> rewritable example_config documented_world ''README.md'')
      \<and> (absent documented_world ''docs/index.md''
             \<or> rewritable example_config documented_world ''docs/index.md'')"
    by (simp add: rewritable_def documented_world_def template_world_def r d)
       (simp add: utf8_encodable_def ascii_def)
  have f: "(\<lambda>p. if p = ''README.md'' \<or> p = ''docs/index.md''
                then url_rewritten example_config (files documented_world p)
                else files documented_world p)
       = (files documented_world)
        (''README.md'' \<mapsto>
           \<lparr>data = Some (ascii ''{PACKAGE_NAME} at https://github.com/ethereum/2024''),
            writable = True\<rparr>,
         ''docs/index.md'' \<mapsto>
           \<lparr>data = Some (ascii
              ''See https://github.com/ethereum/2024 or https://github.com/ethereum/2024/issues''),
            writable = True\<rparr>)"
    by (rule ext) (simp add: url_rewritten_def documented_world_def template_world_def r d)
  show ?thesis
    using update_repository_url_effect [of documented_world example_config "[]"] h
    by (simp only: f)
qed

text \<open>
  C6. With the project name \<^verbatim>\<open>Foo\<close> and the package name \<^verbatim>\<open>bar\<close>, and whatever the
  other four values are (their defaults among them), the full substitution map turns a
  content that is a sequence of the tokens \<^verbatim>\<open>{PROJECT_NAME}\<close> and \<^verbatim>\<open>{PACKAGE_NAME}\<close>,
  in any order and number (twice each among them), into the same sequence with \<^verbatim>\<open>Foo\<close>
  in the place of every \<^verbatim>\<open>{PROJECT_NAME}\<close> and \<^verbatim>\<open>bar\<close> in the place of every
  \<^verbatim>\<open>{PACKAGE_NAME}\<close>: the legacy pairs of the map change nothing.
\<close>

theorem foo_bar_substitution:
  "apply_replacements
     (replacements \<lparr>project_name = ascii ''Foo'', package_name = ascii ''bar'', github_org = g,
        author_name = a, author_email = e, year = y\<rparr>)
     (concat (map token_text ts))
   = concat (map (token_value \<lparr>project_name = ascii ''Foo'', package_name = ascii ''bar'',
        github_org = g, author_name = a, author_email = e, year = y\<rparr>) ts)"
proof -
  have v: "map (token_value \<lparr>project_name = ascii ''Foo'', package_name = ascii ''bar'',
        github_org = g, author_name = a, author_email = e, year = y\<rparr>) ts
      = map (\<lambda>t. case t of ProjectToken \<Rightarrow> ascii ''Foo'' | PackageToken \<Rightarrow> ascii ''bar'') ts"
    by (rule map_cong) (auto split: token.splits)
  show ?thesis
    unfolding v
    by (simp add: replacements_def replace_project_tokens replace_package_tokens
        foo_bar_untouched hd_ascii ascii_nonempty)
qed

theorem foo_bar_substitution_witness:
  "apply_replacements
     (replacements \<lparr>project_name = ascii ''Foo'', package_name = ascii ''bar'',
        github_org = ascii ''ethereum'', author_name = ascii ''Ethereum Foundation'',
        author_email = ascii ''security@ethereum.org'', year = str_nat 2025\<rparr>)
     (ascii ''{PROJECT_NAME}{PACKAGE_NAME}{PACKAGE_NAME}{PROJECT_NAME}'')
   = ascii ''FoobarbarFoo''"
  using foo_bar_substitution [of "ascii ''ethereum''" "ascii ''Ethereum Foundation''"
      "ascii ''security@ethereum.org''" "str_nat 2025"
      "[ProjectToken, PackageToken, PackageToken, ProjectToken]"]
  by (simp add: ascii_def)

text \<open>
  C7. On a fresh template, after the six answers, a response to the confirmation prompt
  whose trimmed and lowercased form is none of the empty string, \<^verbatim>\<open>y\<close> and \<^verbatim>\<open>yes\<close>
  cancels the run: the exit status is 0, the cancellation is printed and every file is as
  it was. Conversely a run of \<open>main\<close> that changes any file has read six answers and an
  affirmative seventh.
\<close>

theorem main_needs_confirmation:
  "(files w ''pyproject.toml'' = Some n \<and> data n = Some c
      \<and> sublist (ascii ''{PACKAGE_NAME}'') c
      \<and> stdin w = Line r1 # Line r2 # Line r3 # Line r4 # Line r5 # Line r6 # Line r # rest
      \<and> py_lower (py_strip r) \<notin> {ascii '''', ascii ''y'', ascii ''yes''}
    \<longrightarrow> main w = (0, w\<lparr>stdin := rest, stdout := stdout w @ [SetupCancelled]\<rparr>))
   \<and> (files (snd (main w)) \<noteq> files w \<longrightarrow>
        (\<exists>a1 a2 a3 a4 a5 a6 a es.
           stdin w = Line a1 # Line a2 # Line a3 # Line a4 # Line a5 # Line a6 # Line a # es
           \<and> py_lower (py_strip a) \<in> {ascii '''', ascii ''y'', ascii ''yes''}))"
proof (intro conjI impI)
  assume "files w ''pyproject.toml'' = Some n \<and> data n = Some c
      \<and> sublist (ascii ''{PACKAGE_NAME}'') c
      \<and> stdin w = Line r1 # Line r2 # Line r3 # Line r4 # Line r5 # Line r6 # Line r # rest
      \<and> py_lower (py_strip r) \<notin> {ascii '''', ascii ''y'', ascii ''yes''}"
  then have "files w ''pyproject.toml'' = Some n" and "data n = Some c"
    and "sublist (ascii ''{PACKAGE_NAME}'') c"
    and "stdin w = Line r1 # Line r2 # Line r3 # Line r4 # Line r5 # Line r6 # Line r # rest"
    and "py_lower (py_strip r) \<notin> {ascii '''', ascii ''y'', ascii ''yes''}"
    by blast+
  then show "main w = (0, w\<lparr>stdin := rest, stdout := stdout w @ [SetupCancelled]\<rparr>)"
    by (rule main_declined)
next
  assume "files (snd (main w)) \<noteq> files w"
  then show "\<exists>a1 a2 a3 a4 a5 a6 a es.
           stdin w = Line a1 # Line a2 # Line a3 # Line a4 # Line a5 # Line a6 # Line a # es
           \<and> py_lower (py_strip a) \<in> {ascii '''', ascii ''y'', ascii ''yes''}"
    by (rule main_mutation)
qed

theorem main_needs_confirmation_witness:
  "main (template_world\<lparr>stdin := [Line [], Line [], Line [], Line [], Line [], Line [],
                                  Line (ascii '' No '')]\<rparr>)
   = (0, template_world\<lparr>stdout := [SetupCancelled]\<rparr>)"
proof -
  let ?w = "template_world\<lparr>stdin := [Line [], Line [], Line [], Line [], Line [], Line [],
                                  Line (ascii '' No '')]\<rparr>"
  let ?n = "\<lparr>data = Some (ascii ''name = {PACKAGE_NAME}''), writable = True\<rparr>"
  have l: "py_lower (py_strip (ascii '' No '')) = ascii ''no''"
    by (simp add: py_lower_def py_strip_def is_space_def lower_cp_def ascii_def)
  have h: "files ?w ''pyproject.toml'' = Some ?n \<and> data ?n = Some (ascii ''name = {PACKAGE_NAME}'')
      \<and> sublist (ascii ''{PACKAGE_NAME}'') (ascii ''name = {PACKAGE_NAME}'')
      \<and> stdin ?w = Line [] # Line [] # Line [] # Line [] # Line [] # Line []
            # Line (ascii '' No '') # []
      \<and> py_lower (py_strip (ascii '' No '')) \<notin> {ascii '''', ascii ''y'', ascii ''yes''}"
    by (simp add: template_world_def template_marker l) (simp add: ascii_def)
  have s: "stdout template_world = []" "stdin template_world = []"
    by (simp_all add: template_world_def)
  have "main ?w = (0, ?w\<lparr>stdin := [], stdout := stdout ?w @ [SetupCancelled]\<rparr>)"
    using main_needs_confirmation [of ?w ?n "ascii ''name = {PACKAGE_NAME}''" "[]" "[]" "[]" "[]"
        "[]" "[]" "ascii '' No ''" "[]"] h
    by blast
  also have "?w\<lparr>stdin := [], stdout := stdout ?w @ [SetupCancelled]\<rparr>
      = template_world\<lparr>stdout := [SetupCancelled]\<rparr>"
    by (simp add: template_world_def)
  finally show ?thesis .
qed

text \<open>
  C8. On a fresh template, a keyboard interrupt at any of the six prompts or at the
  confirmation prompt (after at most six answered lines) ends the process with status 0,
  and every file is as it was.
\<close>

theorem main_interrupted:
  assumes "files w ''pyproject.toml'' = Some n" and "data n = Some c"
    and "sublist (ascii ''{PACKAGE_NAME}'') c"
    and "stdin w = map Line rs @ Interrupt # rest" and "length rs \<le> 6"
  shows "main w = (0, w\<lparr>stdin := rest, stdout := stdout w @ [SetupCancelled]\<rparr>)"
proof -
  have "main_try w = (Inl KeyboardInterrupt, w\<lparr>stdin := rest\<rparr>)"
    using length_le_6 [OF assms(5)] assms(4)
    by (elim disjE exE)
       (simp_all add: main_try_def get_user_input_def Let_def io_bind_def py_input_def)
  then show ?thesis
    by (simp add: main_precondition [OF assms(1-3)] print_def)
qed

theorem main_interrupted_witness:
  "main (template_world\<lparr>stdin := [Line (ascii ''Foo''), Line [], Interrupt, Line []]\<rparr>)
   = (0, template_world\<lparr>stdin := [Line []], stdout := [SetupCancelled]\<rparr>)"
proof -
  let ?w = "template_world\<lparr>stdin := [Line (ascii ''Foo''), Line [], Interrupt, Line []]\<rparr>"
  let ?n = "\<lparr>data = Some (ascii ''name = {PACKAGE_NAME}''), writable = True\<rparr>"
  have "main ?w = (0, ?w\<lparr>stdin := [Line []], stdout := stdout ?w @ [SetupCancelled]\<rparr>)"
  proof (rule main_interrupted [where rs = "[ascii ''Foo'', []]"])
    show "files ?w ''pyproject.toml'' = Some ?n" by (simp add: template_world_def)
    show "data ?n = Some (ascii ''name = {PACKAGE_NAME}'')" by simp
    show "sublist (ascii ''{PACKAGE_NAME}'') (ascii ''name = {PACKAGE_NAME}'')"
      by (rule template_marker)
    show "stdin ?w = map Line [ascii ''Foo'', []] @ Interrupt # [Line []]" by simp
    show "length [ascii ''Foo'', []] \<le> 6" by simp
  qed
  also have "?w\<lparr>stdin := [Line []], stdout := stdout ?w @ [SetupCancelled]\<rparr>
      = template_world\<lparr>stdin := [Line []], stdout := [SetupCancelled]\<rparr>"
    by (simp add: template_world_def)
  finally show ?thesis .
qed

text \<open>
  C9, as stated: after collection every one of the six keys holds a non-empty string,
  for every sequence of responses and every name of the current directory. The name of
  the root directory is empty (\<^verbatim>\<open>Path('/').name\<close> is the empty string); with it and
  six empty responses the project name and the package name are empty.
\<close>

theorem get_user_input_counterexample:
  "get_user_input \<lparr>files = Map.empty, denied = {},
       stdin = [Line [], Line [], Line [], Line [], Line [], Line []],
       stdout = [], cwd_name = [], current_year = 2025\<rparr>
   = (Inr \<lparr>project_name = [], package_name = [], github_org = ascii ''ethereum'',
          author_name = ascii ''Ethereum Foundation'',
          author_email = ascii ''security@ethereum.org'', year = ascii ''2025''\<rparr>,
      \<lparr>files = Map.empty, denied = {}, stdin = [], stdout = [], cwd_name = [],
        current_year = 2025\<rparr>)"
proof -
  have y: "str_nat 2025 = ascii ''2025''"
    by (simp add: str_nat.simps ascii_def)
  show ?thesis
    by (simp add: get_user_input_lines or_default_def py_strip_def default_package_name_def
        py_lower_def y)
qed

text \<open>
  C9, amended: six responses always give a configuration, each value being the trimmed
  response or, where that is empty, the default of the key. In every configuration that
  \<open>get_user_input\<close> returns, the organisation, the author name, the author email and
  the year are non-empty; the project name and the package name are non-empty when the
  name of the current directory is non-empty.
\<close>

theorem get_user_input_nonempty:
  "(stdin w = Line r1 # Line r2 # Line r3 # Line r4 # Line r5 # Line r6 # rest \<longrightarrow>
      get_user_input w =
        (Inr \<lparr>project_name = or_default (py_strip r1) (cwd_name w),
            package_name = or_default (py_strip r2)
               (default_package_name (or_default (py_strip r1) (cwd_name w))),
            github_org = or_default (py_strip r3) (ascii ''ethereum''),
            author_name = or_default (py_strip r4) (ascii ''Ethereum Foundation''),
            author_email = or_default (py_strip r5) (ascii ''security@ethereum.org''),
            year = or_default (py_strip r6) (str_nat (current_year w))\<rparr>,
         w\<lparr>stdin := rest\<rparr>))
   \<and> (get_user_input w = (Inr cfg, w') \<longrightarrow>
        github_org cfg \<noteq> [] \<and> author_name cfg \<noteq> [] \<and> author_email cfg \<noteq> [] \<and> year cfg \<noteq> []
        \<and> (cwd_name w \<noteq> [] \<longrightarrow> project_name cfg \<noteq> [] \<and> package_name cfg \<noteq> []))"
proof (intro conjI impI)
  assume "stdin w = Line r1 # Line r2 # Line r3 # Line r4 # Line r5 # Line r6 # rest"
  then show "get_user_input w =
        (Inr \<lparr>project_name = or_default (py_strip r1) (cwd_name w),
            package_name = or_default (py_strip r2)
               (default_package_name (or_default (py_strip r1) (cwd_name w))),
            github_org = or_default (py_strip r3) (ascii ''ethereum''),
            author_name = or_default (py_strip r4) (ascii ''Ethereum Foundation''),
            author_email = or_default (py_strip r5) (ascii ''security@ethereum.org''),
            year = or_default (py_strip r6) (str_nat (current_year w))\<rparr>,
         w\<lparr>stdin := rest\<rparr>)"
    by (rule get_user_input_lines)
next
  assume g: "get_user_input w = (Inr cfg, w')"
  from get_user_input_cases [OF g] obtain r1 r2 r3 r4 r5 r6 where
    cfg: "cfg = \<lparr>project_name = or_default (py_strip r1) (cwd_name w),
                  package_name = or_default (py_strip r2)
                     (default_package_name (or_default (py_strip r1) (cwd_name w))),
                  github_org = or_default (py_strip r3) (ascii ''ethereum''),
                  author_name = or_default (py_strip r4) (ascii ''Ethereum Foundation''),
                  author_email = or_default (py_strip r5) (ascii ''security@ethereum.org''),
                  year = or_default (py_strip r6) (str_nat (current_year w))\<rparr>"
    by auto
  show "github_org cfg \<noteq> []" "author_name cfg \<noteq> []" "author_email cfg \<noteq> []"
    by (simp_all add: cfg or_default_nonempty ascii_nonempty)
  show "year cfg \<noteq> []"
    by (simp add: cfg or_default_nonempty str_nat_nonempty)
  show "project_name cfg \<noteq> []" if "cwd_name w \<noteq> []"
    using that by (simp add: cfg or_default_nonempty)
  show "package_name cfg \<noteq> []" if "cwd_name w \<noteq> []"
    using that by (simp add: cfg or_default_nonempty default_package_name_nonempty)
qed

theorem get_user_input_nonempty_witness:
  "get_user_input (template_world\<lparr>stdin := [Line [], Line [], Line [], Line [], Line [], Line []]\<rparr>)
   = (Inr \<lparr>project_name = ascii ''My Specs'', package_name = ascii ''my-specs'',
          github_org = ascii ''ethereum'', author_name = ascii ''Ethereum Foundation'',
          author_email = ascii ''security@ethereum.org'', year = ascii ''2025''\<rparr>,
      template_world)
   \<and> ascii ''My Specs'' \<noteq> [] \<and> ascii ''my-specs'' \<noteq> [] \<and> ascii ''ethereum'' \<noteq> []
   \<and> ascii ''Ethereum Foundation'' \<noteq> [] \<and> ascii ''security@ethereum.org'' \<noteq> []
   \<and> ascii ''2025'' \<noteq> []"
proof -
  let ?w = "template_world\<lparr>stdin := [Line [], Line [], Line [], Line [], Line [], Line []]\<rparr>"
  let ?cfg = "\<lparr>project_name = ascii ''My Specs'', package_name = ascii ''my-specs'',
          github_org = ascii ''ethereum'', author_name = ascii ''Ethereum Foundation'',
          author_email = ascii ''security@ethereum.org'', year = ascii ''2025''\<rparr>"
  have y: "str_nat 2025 = ascii ''2025''"
    by (simp add: str_nat.simps ascii_def)
  have d: "default_package_name (ascii ''My Specs'') = ascii ''my-specs''"
    by (simp add: default_package_name_def py_lower_def lower_cp_def in_class_def ascii_def)
  have g: "get_user_input ?w = (Inr ?cfg, template_world)"
    by (simp add: get_user_input_lines or_default_def py_strip_def template_world_def y d)
  have c: "cwd_name ?w \<noteq> []"
    by (simp add: template_world_def ascii_def)
  have "github_org ?cfg \<noteq> [] \<and> author_name ?cfg \<noteq> [] \<and> author_email ?cfg \<noteq> []
      \<and> year ?cfg \<noteq> [] \<and> project_name ?cfg \<noteq> [] \<and> package_name ?cfg \<noteq> []"
    using get_user_input_nonempty [of ?w "[]" "[]" "[]" "[]" "[]" "[]" "[]" ?cfg template_world] g c
    by blast
  with g show ?thesis by simp
qed

text \<open>
  C10. For every block, \<open>validate_block_gas\<close> returns true exactly when the gas used is
  at most the gas limit; the comparison is not strict, so a block whose gas used equals
  its gas limit is valid.
\<close>

theorem validate_block_gas_iff:
  "validate_block_gas b = (gas_used b \<le> gas_limit b)
   \<and> validate_block_gas (b\<lparr>gas_used := gas_limit b\<rparr>)"
  by (simp add: validate_block_gas_def)

theorem validate_block_gas_iff_witness:
  "validate_block_gas \<lparr>number = 1, parent_hash = replicate 32 0, transactions = [],
     gas_used = 15000000, gas_limit = 15000000\<rparr>
   \<and> \<not> validate_block_gas \<lparr>number = 1, parent_hash = replicate 32 0, transactions = [],
     gas_used = 15000001, gas_limit = 15000000\<rparr>"
  using validate_block_gas_iff [of "\<lparr>number = 1, parent_hash = replicate 32 0,
     transactions = [], gas_used = 15000001, gas_limit = 15000000\<rparr>"]
  by simp

end
